theory Spec2Isabelle
  imports Main
begin

section \<open>The auth service of sso (internal/services/auth/auth.go)\<close>

text \<open>
  The service \<open>Auth\<close> holds no data of its own: every operation is a sequence of calls
  to collaborators it was constructed with (the account, app and session stores behind
  Go interfaces, bcrypt, the JWT signer, the random source and the clock), followed by
  a return. The embedding keeps that shape. The collaborators are fields of the record
  \<open>Auth\<close>; each of them acts on an opaque external state \<open>'s\<close> and returns its result
  with the new state. Every store call the service issues is appended, with its
  arguments and its outcome, to a list of events kept beside the external state, and
  every reading of the clock is appended too, so that what an operation did to the
  outside can be read off from the events it added. Logging through \<open>slog\<close> has no
  influence on results or on store calls and is left out. Go's \<open>int64\<close> identifiers are
  only passed around, never computed with, and are modelled as \<open>int\<close>.
\<close>

subsection \<open>Errors\<close>

text \<open>
  Go error values. \<open>ErrInvalidCredentials\<close> is the package's own sentinel,
  \<open>ErrAccountNotFound\<close> the sentinel \<open>storage.ErrAccountNotFound\<close> the service tests for,
  \<open>ErrOther m\<close> any other error a collaborator may hand back (identified by its
  message), and \<open>Errorf op err\<close> the value of \<open>fmt.Errorf("%s: %w", op, err)\<close>:
  an error that wraps \<open>err\<close>. With \<open>err = nil\<close> Go still builds a non-nil error (its
  text ends in \<open>%!w(<nil>)\<close>) that wraps nothing, which is \<open>Errorf op None\<close>.
\<close>

datatype error =
    ErrInvalidCredentials
  | ErrAccountNotFound
  | ErrOther string
  | Errorf string "error option"

text \<open>\<open>errors.Is\<close>: the error itself or any error down its chain of wrapped errors.\<close>

fun errors_Is :: "error \<Rightarrow> error \<Rightarrow> bool" where
  "errors_Is (Errorf op (Some e)) target =
     (if Errorf op (Some e) = target then True else errors_Is e target)"
| "errors_Is err target = (err = target)"

subsection \<open>Time\<close>

text \<open>
  A \<open>time.Time\<close> is modelled by its number of nanoseconds since the Unix epoch, a
  \<open>time.Duration\<close> by its number of nanoseconds.
\<close>

type_synonym time = int
type_synonym duration = int

definition Before :: "time \<Rightarrow> time \<Rightarrow> bool" where
  "Before t u = (t < u)"

definition Add :: "time \<Rightarrow> duration \<Rightarrow> time" where
  "Add t d = t + d"

definition Unix :: "time \<Rightarrow> int" where
  "Unix t = t div 1000000000"

subsection \<open>The domain models\<close>

type_synonym bytes = string

text \<open>
  The package \<open>sso/internal/domain/models\<close> is not among the sources; its types are
  taken from the data model of the spec, with the field names the service uses.
\<close>

text \<open>
  Modelled from the spec: the type \<open>models.AccountRole\<close>, an enumeration (standard,
  admin, ...).
\<close>

datatype AccountRole = STANDARD | ADMIN | OtherRole int

text \<open>
  Modelled from the spec: the type \<open>models.AccountStatus\<close>, an enumeration (ACTIVE,
  SUSPENDED, ...); \<open>ACTIVE\<close> is the constant \<open>models.ACTIVE\<close> of line 102.
\<close>

datatype AccountStatus = ACTIVE | SUSPENDED | OtherStatus int

text \<open>
  Modelled from the spec: the struct \<open>models.Account\<close>. An account has an id, an email,
  a password hash, a role, a status and the id of its app.
\<close>

record Account =
  Account_ID :: int
  Account_Email :: string
  Account_PassHash :: bytes
  Account_Role :: AccountRole
  Account_Status :: AccountStatus
  Account_AppId :: int

text \<open>
  Modelled from the spec: the struct \<open>models.App\<close>. An app has an id, a secret, the two
  TTLs and a redirect URL.
\<close>

record App =
  App_ID :: int
  App_Secret :: string
  App_TokenTTL :: duration
  App_RefreshTokenTTL :: duration
  App_RedirectURL :: string

text \<open>
  Modelled from the spec: the struct \<open>models.Session\<close>. A session has an id, its
  account, the user agent and IP address it was issued to, the access token, the
  refresh token and the two deadlines.
\<close>

record Session =
  Session_ID :: string
  Session_AccountID :: int
  Session_UserAgent :: string
  Session_IpAddress :: string
  Session_Token :: string
  Session_RefreshToken :: string
  Session_ExpiresAt :: time
  Session_RefreshExpiresAt :: time

subsection \<open>Collaborators and the world\<close>

text \<open>
  The struct \<open>Auth\<close>. The interfaces \<open>AccountSaver\<close>, \<open>AccountProvider\<close>, \<open>AppProvider\<close>,
  \<open>SessionSaver\<close> and \<open>SessionProvider\<close> are flattened into its fields; \<open>RevokeSession\<close>
  exists on both session interfaces and keeps one field for each; the methods \<open>App\<close>
  and \<open>Session\<close> are the fields \<open>AppById\<close> and \<open>SessionByToken\<close>, the records of the
  domain models having taken their names. The library
  functions the service calls (bcrypt, \<open>jwt.NewToken\<close>, \<open>rand.Read\<close>, the base64
  encoder and \<open>time.Now\<close>) are fields as well: their code is outside the repository.
\<close>

record 's Auth =
  SaveAccount :: "string \<Rightarrow> bytes \<Rightarrow> AccountRole \<Rightarrow> AccountStatus \<Rightarrow> int \<Rightarrow> 's \<Rightarrow> (error + int) \<times> 's"
  UpdatePassword :: "int \<Rightarrow> bytes \<Rightarrow> 's \<Rightarrow> (error + unit) \<times> 's"
  UpdateStatus :: "int \<Rightarrow> AccountStatus \<Rightarrow> 's \<Rightarrow> (error + unit) \<times> 's"
  AccountByEmail :: "string \<Rightarrow> 's \<Rightarrow> (error + Account) \<times> 's"
  AccountById :: "int \<Rightarrow> 's \<Rightarrow> (error + Account) \<times> 's"
  IsAdmin :: "int \<Rightarrow> 's \<Rightarrow> (error + bool) \<times> 's"
  AppById :: "int \<Rightarrow> 's \<Rightarrow> (error + App) \<times> 's"
  SaveSession :: "int \<Rightarrow> string \<Rightarrow> string \<Rightarrow> string \<Rightarrow> string \<Rightarrow> time \<Rightarrow> 's \<Rightarrow> (error + string) \<times> 's"
  sessionSaver_RevokeSession :: "string \<Rightarrow> 's \<Rightarrow> (error + unit) \<times> 's"
  Sessions :: "int \<Rightarrow> 's \<Rightarrow> (error + Session list) \<times> 's"
  SessionByToken :: "string \<Rightarrow> 's \<Rightarrow> (error + Session) \<times> 's"
  SessionByRefreshToken :: "string \<Rightarrow> 's \<Rightarrow> (error + Session) \<times> 's"
  sessionProvider_RevokeSession :: "string \<Rightarrow> 's \<Rightarrow> (error + unit) \<times> 's"
  tokenTTL :: duration
  refreshTokenTTL :: duration
  bcrypt_GenerateFromPassword :: "bytes \<Rightarrow> nat \<Rightarrow> 's \<Rightarrow> (error + bytes) \<times> 's"
  bcrypt_CompareHashAndPassword :: "bytes \<Rightarrow> bytes \<Rightarrow> error option"
  jwt_NewToken :: "Account \<Rightarrow> App \<Rightarrow> duration \<Rightarrow> 's \<Rightarrow> (error + string) \<times> 's"
  rand_Read :: "nat \<Rightarrow> 's \<Rightarrow> (error + bytes) \<times> 's"
  base64_EncodeToString :: "bytes \<Rightarrow> string"
  time_Now :: "'s \<Rightarrow> time \<times> 's"

definition bcrypt_DefaultCost :: nat where
  "bcrypt_DefaultCost = 10"

text \<open>The store calls the service can issue, with their arguments.\<close>

datatype call =
    Call_SaveAccount string bytes AccountRole AccountStatus int
  | Call_UpdatePassword int bytes
  | Call_UpdateStatus int AccountStatus
  | Call_AccountByEmail string
  | Call_AccountById int
  | Call_App int
  | Call_SaveSession int string string string string time
  | Call_sessionSaver_RevokeSession string
  | Call_Sessions int
  | Call_Session string
  | Call_SessionByRefreshToken string
  | Call_sessionProvider_RevokeSession string

text \<open>
  An event is a store call together with the error it returned (\<open>None\<close> for \<open>nil\<close>), or
  a reading of the clock together with the time read.
\<close>

datatype event = Store call "error option" | Clock time

record 's world =
  ext :: 's
  events :: "event list"

definition outcome :: "error + 'a \<Rightarrow> error option" where
  "outcome r = (case r of Inl e \<Rightarrow> Some e | Inr _ \<Rightarrow> None)"

text \<open>A store call: run it on the external state and record it.\<close>

definition invoke :: "call \<Rightarrow> ('s \<Rightarrow> (error + 'a) \<times> 's) \<Rightarrow> 's world \<Rightarrow> (error + 'a) \<times> 's world" where
  "invoke c f w =
     (case f (ext w) of
        (r, s') \<Rightarrow> (r, \<lparr>ext = s', events = events w @ [Store c (outcome r)]\<rparr>))"

text \<open>A library call: run it on the external state.\<close>

definition prim :: "('s \<Rightarrow> 'a \<times> 's) \<Rightarrow> 's world \<Rightarrow> 'a \<times> 's world" where
  "prim f w = (case f (ext w) of (r, s') \<Rightarrow> (r, \<lparr>ext = s', events = events w\<rparr>))"

text \<open>\<open>time.Now()\<close>: read the clock and record the reading.\<close>

definition now :: "'s Auth \<Rightarrow> 's world \<Rightarrow> time \<times> 's world" where
  "now a w =
     (case time_Now a (ext w) of
        (t, s') \<Rightarrow> (t, \<lparr>ext = s', events = events w @ [Clock t]\<rparr>))"

subsection \<open>The operations\<close>

text \<open>
  Each operation returns Go's tuple of results, the error last (\<open>None\<close> for \<open>nil\<close>),
  and the world after its calls.
\<close>

text \<open>\<open>RegisterNewAccount\<close> (auth.go, lines 86 to 111).\<close>

definition RegisterNewAccount ::
  "'s Auth \<Rightarrow> string \<Rightarrow> string \<Rightarrow> AccountRole \<Rightarrow> int \<Rightarrow> 's world \<Rightarrow> (int \<times> error option) \<times> 's world" where
  "RegisterNewAccount a email pass role appId w =
     (let op = ''Auth.RegisterNewAccount'' in
      case prim (bcrypt_GenerateFromPassword a pass bcrypt_DefaultCost) w of
        (Inl err, w1) \<Rightarrow> ((0, Some (Errorf op (Some err))), w1)
      | (Inr passHash, w1) \<Rightarrow>
          let status = ACTIVE in
          (case invoke (Call_SaveAccount email passHash role status appId)
                  (SaveAccount a email passHash role status appId) w1 of
             (Inl err, w2) \<Rightarrow> ((0, Some (Errorf op (Some err))), w2)
           | (Inr uid, w2) \<Rightarrow> ((uid, None), w2)))"

text \<open>\<open>generateRefreshToken\<close> (lines 181 to 190): 32 random bytes, base64-encoded.\<close>

definition generateRefreshToken :: "'s Auth \<Rightarrow> 's world \<Rightarrow> (string \<times> error option) \<times> 's world" where
  "generateRefreshToken a w =
     (let tokenSize = 32 in
      case prim (rand_Read a tokenSize) w of
        (Inl err, w1) \<Rightarrow> (([], Some err), w1)
      | (Inr token, w1) \<Rightarrow> ((base64_EncodeToString a token, None), w1))"

text \<open>\<open>Login\<close> (lines 117 to 179).\<close>

definition Login ::
  "'s Auth \<Rightarrow> string \<Rightarrow> string \<Rightarrow> string \<Rightarrow> string \<Rightarrow> int \<Rightarrow> 's world
     \<Rightarrow> (string \<times> string \<times> error option) \<times> 's world" where
  "Login a email password userAgent ipAddress appID w =
     (let op = ''Auth.Login'' in
      case invoke (Call_AccountByEmail email) (AccountByEmail a email) w of
        (Inl err, w1) \<Rightarrow>
          if errors_Is err ErrAccountNotFound
          then (([], [], Some (Errorf op (Some ErrInvalidCredentials))), w1)
          else (([], [], Some (Errorf op (Some err))), w1)
      | (Inr user, w1) \<Rightarrow>
          (case bcrypt_CompareHashAndPassword a (Account_PassHash user) password of
             Some err \<Rightarrow> (([], [], Some (Errorf op (Some ErrInvalidCredentials))), w1)
           | None \<Rightarrow>
               (case invoke (Call_App appID) (AppById a appID) w1 of
                  (Inl err, w2) \<Rightarrow> (([], [], Some (Errorf op (Some err))), w2)
                | (Inr app, w2) \<Rightarrow>
                    (case prim (jwt_NewToken a user app (tokenTTL a)) w2 of
                       (Inl err, w3) \<Rightarrow> (([], [], Some (Errorf op (Some err))), w3)
                     | (Inr token, w3) \<Rightarrow>
                         (case generateRefreshToken a w3 of
                            ((_, Some err), w4) \<Rightarrow> (([], [], Some (Errorf op (Some err))), w4)
                          | ((refreshToken, None), w4) \<Rightarrow>
                              (case now a w4 of
                                 (t, w5) \<Rightarrow>
                                   let expiresAt = Add t (refreshTokenTTL a) in
                                   (case invoke
                                           (Call_SaveSession (Account_ID user) userAgent ipAddress
                                              token refreshToken expiresAt)
                                           (SaveSession a (Account_ID user) userAgent ipAddress
                                              token refreshToken expiresAt) w5 of
                                      (Inl err, w6) \<Rightarrow> (([], [], Some (Errorf op (Some err))), w6)
                                    | (Inr sessionID, w6) \<Rightarrow>
                                        ((token, refreshToken, None), w6))))))))"

text \<open>
  \<open>Logout\<close> (lines 193 to 220). \<open>Logout_loop\<close> is the \<open>for ... range sessions\<close> loop of lines
  210 to 216 together with the return that follows it.
\<close>

fun Logout_loop :: "'s Auth \<Rightarrow> string \<Rightarrow> Session list \<Rightarrow> 's world \<Rightarrow> (bool \<times> error option) \<times> 's world" where
  "Logout_loop a op [] w = ((True, None), w)"
| "Logout_loop a op (session # sessions) w =
     (case invoke (Call_sessionSaver_RevokeSession (Session_Token session))
             (sessionSaver_RevokeSession a (Session_Token session)) w of
        (Inl err, w1) \<Rightarrow> ((False, Some (Errorf op (Some err))), w1)
      | (Inr _, w1) \<Rightarrow> Logout_loop a op sessions w1)"

definition Logout :: "'s Auth \<Rightarrow> int \<Rightarrow> 's world \<Rightarrow> (bool \<times> error option) \<times> 's world" where
  "Logout a accountID w =
     (let op = ''Auth.Logout'' in
      case invoke (Call_Sessions accountID) (Sessions a accountID) w of
        (Inl err, w1) \<Rightarrow> ((False, Some (Errorf op (Some err))), w1)
      | (Inr sessions, w1) \<Rightarrow> Logout_loop a op sessions w1)"

text \<open>\<open>ChangePassword\<close> (lines 222 to 257).\<close>

definition ChangePassword ::
  "'s Auth \<Rightarrow> int \<Rightarrow> string \<Rightarrow> string \<Rightarrow> 's world \<Rightarrow> (bool \<times> error option) \<times> 's world" where
  "ChangePassword a accountID oldPassword newPassword w =
     (let op = ''Auth.ChangePassword'' in
      case invoke (Call_AccountById accountID) (AccountById a accountID) w of
        (Inl err, w1) \<Rightarrow> ((False, Some (Errorf op (Some err))), w1)
      | (Inr account, w1) \<Rightarrow>
          (case bcrypt_CompareHashAndPassword a (Account_PassHash account) oldPassword of
             Some err \<Rightarrow> ((False, Some (Errorf op (Some ErrInvalidCredentials))), w1)
           | None \<Rightarrow>
               (case prim (bcrypt_GenerateFromPassword a newPassword bcrypt_DefaultCost) w1 of
                  (Inl err, w2) \<Rightarrow> ((False, Some (Errorf op (Some err))), w2)
                | (Inr newPassHash, w2) \<Rightarrow>
                    (case invoke (Call_UpdatePassword accountID newPassHash)
                            (UpdatePassword a accountID newPassHash) w2 of
                       (Inl err, w3) \<Rightarrow> ((False, Some (Errorf op (Some err))), w3)
                     | (Inr _, w3) \<Rightarrow> ((True, None), w3)))))"

text \<open>\<open>ChangeStatus\<close> (lines 260 to 279).\<close>

definition ChangeStatus ::
  "'s Auth \<Rightarrow> int \<Rightarrow> AccountStatus \<Rightarrow> 's world \<Rightarrow> (AccountStatus \<times> error option) \<times> 's world" where
  "ChangeStatus a accountID status w =
     (let op = ''Auth.ChangeStatus'' in
      case invoke (Call_UpdateStatus accountID status) (UpdateStatus a accountID status) w of
        (Inl err, w1) \<Rightarrow> ((status, Some (Errorf op (Some err))), w1)
      | (Inr _, w1) \<Rightarrow> ((status, None), w1))"

text \<open>
  \<open>GetActiveAccountSessions\<close> (lines 282 to 300). Go's \<open>nil\<close> slice of the failure branch
  is the empty list.
\<close>

definition GetActiveAccountSessions ::
  "'s Auth \<Rightarrow> int \<Rightarrow> 's world \<Rightarrow> (Session list \<times> error option) \<times> 's world" where
  "GetActiveAccountSessions a accountID w =
     (let op = ''Auth.GetActiveAccountSessions'' in
      case invoke (Call_Sessions accountID) (Sessions a accountID) w of
        (Inl err, w1) \<Rightarrow> (([], Some (Errorf op (Some err))), w1)
      | (Inr sessions, w1) \<Rightarrow> ((sessions, None), w1))"

text \<open>
  \<open>RefreshAccountSession\<close> (lines 303 to 363). The variable \<open>err\<close> of the function is
  assigned by the three lookups; when the third one succeeds it holds \<open>nil\<close>, and that
  is the value line 337 wraps.
\<close>

definition RefreshAccountSession ::
  "'s Auth \<Rightarrow> int \<Rightarrow> string \<Rightarrow> string \<Rightarrow> string \<Rightarrow> 's world
     \<Rightarrow> (string \<times> string \<times> int \<times> error option) \<times> 's world" where
  "RefreshAccountSession a accountID refreshToken userAgent ipAddress w =
     (let op = ''Auth.RefreshAccountSession'' in
      case invoke (Call_AccountById accountID) (AccountById a accountID) w of
        (Inl err, w1) \<Rightarrow> (([], [], 0, Some (Errorf op (Some err))), w1)
      | (Inr account, w1) \<Rightarrow>
          (case invoke (Call_App (Account_AppId account)) (AppById a (Account_AppId account)) w1 of
             (Inl err, w2) \<Rightarrow> (([], [], 0, Some (Errorf op (Some err))), w2)
           | (Inr app, w2) \<Rightarrow>
               (case invoke (Call_SessionByRefreshToken refreshToken)
                       (SessionByRefreshToken a refreshToken) w2 of
                  (Inl err, w3) \<Rightarrow> (([], [], 0, Some (Errorf op (Some err))), w3)
                | (Inr session, w3) \<Rightarrow>
                    let err = None in
                    (case now a w3 of
                       (t, w4) \<Rightarrow>
                         if Before (Session_RefreshExpiresAt session) t
                         then (([], [], 0, Some (Errorf op err)), w4)
                         else
                           (case prim (jwt_NewToken a account app (tokenTTL a)) w4 of
                              (Inl err, w5) \<Rightarrow> (([], [], 0, Some (Errorf op (Some err))), w5)
                            | (Inr newToken, w5) \<Rightarrow>
                                (case generateRefreshToken a w5 of
                                   ((_, Some err), w6) \<Rightarrow>
                                     (([], [], 0, Some (Errorf op (Some err))), w6)
                                 | ((newRefreshToken, None), w6) \<Rightarrow>
                                     (case now a w6 of
                                        (t', w7) \<Rightarrow>
                                          let expiresAt = Add t' (refreshTokenTTL a) in
                                          (case invoke
                                                  (Call_SaveSession accountID userAgent ipAddress
                                                     newToken newRefreshToken expiresAt)
                                                  (SaveSession a accountID userAgent ipAddress
                                                     newToken newRefreshToken expiresAt) w7 of
                                             (Inl err, w8) \<Rightarrow>
                                               (([], [], 0, Some (Errorf op (Some err))), w8)
                                           | (Inr sessionID, w8) \<Rightarrow>
                                               ((newToken, newRefreshToken, Unix expiresAt, None),
                                                w8)))))))))"

text \<open>\<open>ValidateAccountSession\<close> (lines 366 to 388).\<close>

definition ValidateAccountSession ::
  "'s Auth \<Rightarrow> string \<Rightarrow> 's world \<Rightarrow> (bool \<times> int \<times> error option) \<times> 's world" where
  "ValidateAccountSession a token w =
     (let op = ''Auth.ValidateAccountSession'' in
      case invoke (Call_Session token) (SessionByToken a token) w of
        (Inl err, w1) \<Rightarrow> ((False, 0, Some (Errorf op (Some err))), w1)
      | (Inr session, w1) \<Rightarrow>
          (case now a w1 of
             (t, w2) \<Rightarrow>
               if Before (Session_ExpiresAt session) t
               then ((False, Unix (Session_ExpiresAt session), None), w2)
               else ((True, Unix (Session_ExpiresAt session), None), w2)))"

text \<open>\<open>RevokeAccountSession\<close> (lines 391 to 408).\<close>

definition RevokeAccountSession :: "'s Auth \<Rightarrow> string \<Rightarrow> 's world \<Rightarrow> (bool \<times> error option) \<times> 's world" where
  "RevokeAccountSession a token w =
     (let op = ''Auth.RevokeAccountSession'' in
      case invoke (Call_sessionProvider_RevokeSession token)
             (sessionProvider_RevokeSession a token) w of
        (Inl err, w1) \<Rightarrow> ((False, Some (Errorf op (Some err))), w1)
      | (Inr _, w1) \<Rightarrow> ((True, None), w1))"

subsection \<open>An in-memory instance of the collaborators\<close>

text \<open>
  A small instance of \<open>Auth\<close> on which the operations can be run: the external state is
  the current time, which no collaborator changes; there is one account
  (\<open>a@x.com\<close>, id 1) whose stored hash is its password, bcrypt is the identity and the
  comparison of hash and password is equality; account 1 has the sessions with the
  tokens \<open>t1\<close>, \<open>t2\<close>, \<open>t3\<close>, any other account those with \<open>t4\<close>, \<open>t5\<close>; revoking \<open>t2\<close>
  fails. Every session expires at second 5 and its refresh token at second 9. The
  theorems below are instantiated on it, and on copies of it in which one collaborator
  fails.
\<close>

definition stub_account :: Account where
  "stub_account = \<lparr>Account_ID = 1, Account_Email = ''a@x.com'', Account_PassHash = ''pw123'',
     Account_Role = STANDARD, Account_Status = ACTIVE, Account_AppId = 1\<rparr>"

definition stub_app :: App where
  "stub_app = \<lparr>App_ID = 1, App_Secret = ''secret'', App_TokenTTL = 3600000000000,
     App_RefreshTokenTTL = 86400000000000, App_RedirectURL = ''''\<rparr>"

definition stub_session :: "string \<Rightarrow> Session" where
  "stub_session tok = \<lparr>Session_ID = ''s-'' @ tok, Session_AccountID = 1, Session_UserAgent = ''ua'',
     Session_IpAddress = ''ip'', Session_Token = tok, Session_RefreshToken = ''r-'' @ tok,
     Session_ExpiresAt = 5000000000, Session_RefreshExpiresAt = 9000000000\<rparr>"

definition stub :: "time Auth" where
  "stub = \<lparr>
     SaveAccount = (\<lambda>email passHash role status appId s. (Inr 1, s)),
     UpdatePassword = (\<lambda>accountId newPassHash s. (Inr (), s)),
     UpdateStatus = (\<lambda>accountId status s. (Inr (), s)),
     AccountByEmail = (\<lambda>email s.
       if email = ''a@x.com'' then (Inr stub_account, s)
       else (Inl (Errorf ''storage.AccountByEmail'' (Some ErrAccountNotFound)), s)),
     AccountById = (\<lambda>accountId s.
       if accountId = 1 then (Inr stub_account, s)
       else (Inl (Errorf ''storage.AccountById'' (Some ErrAccountNotFound)), s)),
     IsAdmin = (\<lambda>accountId s. (Inr False, s)),
     AppById = (\<lambda>appId s. (Inr stub_app, s)),
     SaveSession = (\<lambda>accountId userAgent ipAddress token refreshToken expiresAt s. (Inr ''s-new'', s)),
     sessionSaver_RevokeSession = (\<lambda>token s.
       if token = ''t2'' then (Inl (ErrOther ''revoke failed''), s) else (Inr (), s)),
     Sessions = (\<lambda>accountId s.
       (Inr (if accountId = 1 then [stub_session ''t1'', stub_session ''t2'', stub_session ''t3'']
             else [stub_session ''t4'', stub_session ''t5'']), s)),
     SessionByToken = (\<lambda>token s. (Inr (stub_session token), s)),
     SessionByRefreshToken = (\<lambda>refreshToken s. (Inr (stub_session ''t1''), s)),
     sessionProvider_RevokeSession = (\<lambda>token s. (Inr (), s)),
     tokenTTL = 3600000000000,
     refreshTokenTTL = 86400000000000,
     bcrypt_GenerateFromPassword = (\<lambda>password cost s. (Inr password, s)),
     bcrypt_CompareHashAndPassword = (\<lambda>hashedPassword password.
       if hashedPassword = password then None else Some (ErrOther ''mismatch'')),
     jwt_NewToken = (\<lambda>user app ttl s. (Inr ''jwt'', s)),
     rand_Read = (\<lambda>n s. (Inr (replicate n CHR ''r''), s)),
     base64_EncodeToString = (\<lambda>bs. bs),
     time_Now = (\<lambda>s. (s, s))\<rparr>"

definition world_at :: "time \<Rightarrow> time world" where
  "world_at t = \<lparr>ext = t, events = []\<rparr>"

text \<open>
  A second instance, whose stores keep rows: the external state holds the clock, the
  accounts and the sessions. \<open>SaveAccount\<close> appends an account under the next id,
  \<open>SaveSession\<close> appends a session (the store is handed one deadline only and files
  it under both), a revocation removes the sessions with the token, except that the
  session saver refuses to revoke \<open>t2\<close>, and the lookups search the rows. The
  library functions are those of the first instance.
\<close>

record mem =
  mem_clock :: time
  mem_accounts :: "Account list"
  mem_sessions :: "Session list"

definition mem_Auth :: "mem Auth" where
  "mem_Auth = \<lparr>
     SaveAccount = (\<lambda>email passHash role status appId s.
       (Inr (int (length (mem_accounts s)) + 1),
        s\<lparr>mem_accounts := mem_accounts s @
            [\<lparr>Account_ID = int (length (mem_accounts s)) + 1, Account_Email = email,
              Account_PassHash = passHash, Account_Role = role, Account_Status = status,
              Account_AppId = appId\<rparr>]\<rparr>)),
     UpdatePassword = (\<lambda>accountId newPassHash s.
       (Inr (), s\<lparr>mem_accounts := map (\<lambda>x. if Account_ID x = accountId
                                           then x\<lparr>Account_PassHash := newPassHash\<rparr> else x)
                                      (mem_accounts s)\<rparr>)),
     UpdateStatus = (\<lambda>accountId status s.
       (Inr (), s\<lparr>mem_accounts := map (\<lambda>x. if Account_ID x = accountId
                                           then x\<lparr>Account_Status := status\<rparr> else x)
                                      (mem_accounts s)\<rparr>)),
     AccountByEmail = (\<lambda>email s.
       case find (\<lambda>x. Account_Email x = email) (mem_accounts s) of
         None \<Rightarrow> (Inl (Errorf ''storage.AccountByEmail'' (Some ErrAccountNotFound)), s)
       | Some x \<Rightarrow> (Inr x, s)),
     AccountById = (\<lambda>accountId s.
       case find (\<lambda>x. Account_ID x = accountId) (mem_accounts s) of
         None \<Rightarrow> (Inl (Errorf ''storage.AccountById'' (Some ErrAccountNotFound)), s)
       | Some x \<Rightarrow> (Inr x, s)),
     IsAdmin = (\<lambda>accountId s.
       case find (\<lambda>x. Account_ID x = accountId) (mem_accounts s) of
         None \<Rightarrow> (Inl (Errorf ''storage.IsAdmin'' (Some ErrAccountNotFound)), s)
       | Some x \<Rightarrow> (Inr (Account_Role x = ADMIN), s)),
     AppById = (\<lambda>appId s. (Inr stub_app, s)),
     SaveSession = (\<lambda>accountId userAgent ipAddress token refreshToken expiresAt s.
       (Inr (''s-'' @ token),
        s\<lparr>mem_sessions := mem_sessions s @
            [\<lparr>Session_ID = ''s-'' @ token, Session_AccountID = accountId,
              Session_UserAgent = userAgent, Session_IpAddress = ipAddress,
              Session_Token = token, Session_RefreshToken = refreshToken,
              Session_ExpiresAt = expiresAt, Session_RefreshExpiresAt = expiresAt\<rparr>]\<rparr>)),
     sessionSaver_RevokeSession = (\<lambda>token s.
       if token = ''t2'' then (Inl (ErrOther ''revoke failed''), s)
       else (Inr (), s\<lparr>mem_sessions := filter (\<lambda>x. Session_Token x \<noteq> token) (mem_sessions s)\<rparr>)),
     Sessions = (\<lambda>accountId s.
       (Inr (filter (\<lambda>x. Session_AccountID x = accountId) (mem_sessions s)), s)),
     SessionByToken = (\<lambda>token s.
       case find (\<lambda>x. Session_Token x = token) (mem_sessions s) of
         None \<Rightarrow> (Inl (ErrOther ''session not found''), s)
       | Some x \<Rightarrow> (Inr x, s)),
     SessionByRefreshToken = (\<lambda>refreshToken s.
       case find (\<lambda>x. Session_RefreshToken x = refreshToken) (mem_sessions s) of
         None \<Rightarrow> (Inl (ErrOther ''session not found''), s)
       | Some x \<Rightarrow> (Inr x, s)),
     sessionProvider_RevokeSession = (\<lambda>token s.
       (Inr (), s\<lparr>mem_sessions := filter (\<lambda>x. Session_Token x \<noteq> token) (mem_sessions s)\<rparr>)),
     tokenTTL = 3600000000000,
     refreshTokenTTL = 86400000000000,
     bcrypt_GenerateFromPassword = (\<lambda>password cost s. (Inr password, s)),
     bcrypt_CompareHashAndPassword = (\<lambda>hashedPassword password.
       if hashedPassword = password then None else Some (ErrOther ''mismatch'')),
     jwt_NewToken = (\<lambda>user app ttl s. (Inr ''jwt'', s)),
     rand_Read = (\<lambda>n s. (Inr (replicate n CHR ''r''), s)),
     base64_EncodeToString = (\<lambda>bs. bs),
     time_Now = (\<lambda>s. (mem_clock s, s))\<rparr>"

definition mem_world :: "time \<Rightarrow> Session list \<Rightarrow> mem world" where
  "mem_world t sessions =
     \<lparr>ext = \<lparr>mem_clock = t, mem_accounts = [stub_account], mem_sessions = sessions\<rparr>, events = []\<rparr>"

text \<open>The event of a revocation, through the session saver, that succeeded.\<close>

definition revoked :: "Session \<Rightarrow> event" where
  "revoked session = Store (Call_sessionSaver_RevokeSession (Session_Token session)) None"

text \<open>
  The revocations of the session saver run one after the other over a list of
  sessions, each on the state the one before it left: whether all of them succeed, and
  the state after the last of them.
\<close>

fun revokes_succeed :: "'s Auth \<Rightarrow> Session list \<Rightarrow> 's \<Rightarrow> bool" where
  "revokes_succeed a [] s = True"
| "revokes_succeed a (session # sessions) s =
     (case sessionSaver_RevokeSession a (Session_Token session) s of
        (Inl e, s') \<Rightarrow> False
      | (Inr _, s') \<Rightarrow> revokes_succeed a sessions s')"

fun after_revoking :: "'s Auth \<Rightarrow> Session list \<Rightarrow> 's \<Rightarrow> 's" where
  "after_revoking a [] s = s"
| "after_revoking a (session # sessions) s =
     after_revoking a sessions (snd (sessionSaver_RevokeSession a (Session_Token session) s))"

section \<open>Properties\<close>

lemmas ops = invoke_def prim_def now_def outcome_def Let_def Before_def Add_def Unix_def
  generateRefreshToken_def bcrypt_DefaultCost_def

lemmas stubs = stub_def stub_account_def stub_app_def stub_session_def world_at_def

lemmas mems = mem_Auth_def mem_world_def stub_account_def stub_app_def stub_session_def

text \<open>
  The loop of \<open>Logout\<close>, each revocation running on the state the one before it
  left: it ends with success after every revocation of the list has succeeded, in the
  state after the last of them; or it ends with the error of the first revocation that
  failed, in the state that call left, that call being the last one made.
\<close>

lemma Logout_loop_states:
  "Logout_loop a op sessions w = ((ok, err), w') \<Longrightarrow>
     (ok \<and> err = None \<and> revokes_succeed a sessions (ext w)
        \<and> ext w' = after_revoking a sessions (ext w)
        \<and> events w' = events w @ map revoked sessions)
     \<or> (\<exists>k e. k < length sessions \<and> \<not> ok \<and> err = Some (Errorf op (Some e))
           \<and> revokes_succeed a (take k sessions) (ext w)
           \<and> sessionSaver_RevokeSession a (Session_Token (sessions ! k))
                (after_revoking a (take k sessions) (ext w)) = (Inl e, ext w')
           \<and> events w' = events w @ map revoked (take k sessions)
                @ [Store (Call_sessionSaver_RevokeSession (Session_Token (sessions ! k))) (Some e)])"
proof (induction sessions arbitrary: w)
  case Nil
  then show ?case by auto
next
  case (Cons session sessions)
  obtain r s1 where call: "sessionSaver_RevokeSession a (Session_Token session) (ext w) = (r, s1)"
    by (cases "sessionSaver_RevokeSession a (Session_Token session) (ext w)")
  show ?case
  proof (cases r)
    case (Inl e)
    with call Cons.prems have "\<not> ok" "err = Some (Errorf op (Some e))" "ext w' = s1"
      "events w' = events w @ [Store (Call_sessionSaver_RevokeSession (Session_Token session)) (Some e)]"
      by (auto simp: invoke_def outcome_def)
    with call Inl have "0 < length (session # sessions) \<and> \<not> ok \<and> err = Some (Errorf op (Some e))
           \<and> revokes_succeed a (take 0 (session # sessions)) (ext w)
           \<and> sessionSaver_RevokeSession a (Session_Token ((session # sessions) ! 0))
                (after_revoking a (take 0 (session # sessions)) (ext w)) = (Inl e, ext w')
           \<and> events w' = events w @ map revoked (take 0 (session # sessions))
                @ [Store (Call_sessionSaver_RevokeSession (Session_Token ((session # sessions) ! 0))) (Some e)]"
      by simp
    then show ?thesis by blast
  next
    case (Inr u)
    define w1 where "w1 = \<lparr>ext = s1, events = events w @ [revoked session]\<rparr>"
    from Inr call Cons.prems have rest: "Logout_loop a op sessions w1 = ((ok, err), w')"
      by (simp add: invoke_def outcome_def w1_def revoked_def)
    from Cons.IH[OF rest] show ?thesis
    proof
      assume "ok \<and> err = None \<and> revokes_succeed a sessions (ext w1)
        \<and> ext w' = after_revoking a sessions (ext w1)
        \<and> events w' = events w1 @ map revoked sessions"
      with call Inr show ?thesis by (simp add: w1_def)
    next
      assume "\<exists>k e. k < length sessions \<and> \<not> ok \<and> err = Some (Errorf op (Some e))
           \<and> revokes_succeed a (take k sessions) (ext w1)
           \<and> sessionSaver_RevokeSession a (Session_Token (sessions ! k))
                (after_revoking a (take k sessions) (ext w1)) = (Inl e, ext w')
           \<and> events w' = events w1 @ map revoked (take k sessions)
                @ [Store (Call_sessionSaver_RevokeSession (Session_Token (sessions ! k))) (Some e)]"
      then obtain k e where k: "k < length sessions" "\<not> ok" "err = Some (Errorf op (Some e))"
        "revokes_succeed a (take k sessions) (ext w1)"
        "sessionSaver_RevokeSession a (Session_Token (sessions ! k))
                (after_revoking a (take k sessions) (ext w1)) = (Inl e, ext w')"
        "events w' = events w1 @ map revoked (take k sessions)
                @ [Store (Call_sessionSaver_RevokeSession (Session_Token (sessions ! k))) (Some e)]"
        by blast
      with call Inr have "Suc k < length (session # sessions) \<and> \<not> ok \<and> err = Some (Errorf op (Some e))
           \<and> revokes_succeed a (take (Suc k) (session # sessions)) (ext w)
           \<and> sessionSaver_RevokeSession a (Session_Token ((session # sessions) ! Suc k))
                (after_revoking a (take (Suc k) (session # sessions)) (ext w)) = (Inl e, ext w')
           \<and> events w' = events w @ map revoked (take (Suc k) (session # sessions))
                @ [Store (Call_sessionSaver_RevokeSession (Session_Token ((session # sessions) ! Suc k))) (Some e)]"
        by (simp add: w1_def)
      then show ?thesis by blast
    qed
  qed
qed

subsection \<open>C1\<close>

text \<open>
  Claim C1. When the session found by the refresh token has a refresh deadline
  earlier than the time read from the clock, \<open>RefreshAccountSession\<close> fails: it returns
  empty tokens, 0 and a non-nil error. That error is \<open>fmt.Errorf\<close> applied to the
  variable \<open>err\<close>, which holds \<open>nil\<close> there, so it wraps nothing: \<open>errors.Is\<close> relates
  it to no error but itself, and no kind of failure, refresh-token expiry included,
  can be read from it.
\<close>

theorem RefreshAccountSession_expired_wraps_nil:
  assumes "AccountById a accountID (ext w) = (Inr account, s1)"
    and "AppById a (Account_AppId account) s1 = (Inr app, s2)"
    and "SessionByRefreshToken a refreshToken s2 = (Inr session, s3)"
    and "time_Now a s3 = (t, s4)"
    and "Session_RefreshExpiresAt session < t"
  shows "fst (RefreshAccountSession a accountID refreshToken userAgent ipAddress w) =
           ([], [], 0, Some (Errorf ''Auth.RefreshAccountSession'' None))
         \<and> \<not> errors_Is (Errorf ''Auth.RefreshAccountSession'' None) ErrInvalidCredentials
         \<and> (\<forall>target. errors_Is (Errorf ''Auth.RefreshAccountSession'' None) target
               \<longleftrightarrow> target = Errorf ''Auth.RefreshAccountSession'' None)"
  using assms by (auto simp: RefreshAccountSession_def ops)

text \<open>On the instance, one nanosecond after the refresh deadline of second 9.\<close>

theorem RefreshAccountSession_expired_wraps_nil_witness:
  "fst (RefreshAccountSession stub 1 ''r-t1'' ''ua'' ''ip'' (world_at 9000000001))
     = ([], [], 0, Some (Errorf ''Auth.RefreshAccountSession'' None))
   \<and> \<not> errors_Is (Errorf ''Auth.RefreshAccountSession'' None) ErrInvalidCredentials"
proof -
  have h1: "AccountById stub 1 (ext (world_at 9000000001)) = (Inr stub_account, 9000000001)"
    by (simp add: stub_def world_at_def)
  have h2: "AppById stub (Account_AppId stub_account) 9000000001 = (Inr stub_app, 9000000001)"
    by (simp add: stub_def)
  have h3: "SessionByRefreshToken stub ''r-t1'' 9000000001 = (Inr (stub_session ''t1''), 9000000001)"
    by (simp add: stub_def)
  have h4: "time_Now stub 9000000001 = (9000000001, 9000000001)"
    by (simp add: stub_def)
  have h5: "Session_RefreshExpiresAt (stub_session ''t1'') < 9000000001"
    by (simp add: stub_session_def)
  from RefreshAccountSession_expired_wraps_nil[OF h1 h2 h3 h4 h5] show ?thesis by simp
qed

subsection \<open>C2\<close>

text \<open>
  Claim C2, as the code has it. When the session store returns an error for
  the token, \<open>ValidateAccountSession\<close> returns \<open>false\<close>, 0 and that error wrapped. When it
  returns a session, the result has no error and carries the deadline in Unix seconds;
  it is \<open>false\<close> when the deadline is strictly before the time read from the clock and
  \<open>true\<close> otherwise, so also at the instant of the deadline itself.
\<close>

theorem ValidateAccountSession_result:
  assumes "SessionByToken a token (ext w) = (r, s1)"
    and "time_Now a s1 = (t, s2)"
  shows "fst (ValidateAccountSession a token w) =
           (case r of
              Inl e \<Rightarrow> (False, 0, Some (Errorf ''Auth.ValidateAccountSession'' (Some e)))
            | Inr session \<Rightarrow>
                if Session_ExpiresAt session < t
                then (False, Unix (Session_ExpiresAt session), None)
                else (True, Unix (Session_ExpiresAt session), None))"
  using assms by (auto simp: ValidateAccountSession_def ops split: sum.splits)

text \<open>
  At the instant of the deadline (the clock reads exactly \<open>ExpiresAt\<close>) the result
  is \<open>true\<close>, not \<open>false\<close>.
\<close>

theorem ValidateAccountSession_at_deadline_counterexample:
  "SessionByToken stub ''t1'' (ext (world_at 5000000000)) = (Inr (stub_session ''t1''), 5000000000)
   \<and> time_Now stub 5000000000 = (Session_ExpiresAt (stub_session ''t1''), 5000000000)
   \<and> fst (ValidateAccountSession stub ''t1'' (world_at 5000000000))
       = (True, Unix (Session_ExpiresAt (stub_session ''t1'')), None)
   \<and> fst (ValidateAccountSession stub ''t1'' (world_at 5000000000))
       \<noteq> (False, Unix (Session_ExpiresAt (stub_session ''t1'')), None)"
  by (simp add: ValidateAccountSession_def ops stub_def stub_session_def world_at_def)

text \<open>
  On the instance: one nanosecond before the deadline of second 5, one nanosecond after
  it, and with a session store that does not know the token.
\<close>

theorem ValidateAccountSession_result_witness:
  "fst (ValidateAccountSession stub ''t1'' (world_at 4999999999)) = (True, 5, None)
   \<and> fst (ValidateAccountSession stub ''t1'' (world_at 5000000001)) = (False, 5, None)
   \<and> fst (ValidateAccountSession (stub\<lparr>SessionByToken := (\<lambda>token s. (Inl (ErrOther ''session not found''), s))\<rparr>)
            ''t1'' (world_at 0))
       = (False, 0, Some (Errorf ''Auth.ValidateAccountSession'' (Some (ErrOther ''session not found''))))"
proof -
  have a: "SessionByToken stub ''t1'' (ext (world_at 4999999999)) = (Inr (stub_session ''t1''), 4999999999)"
    "time_Now stub 4999999999 = (4999999999, 4999999999)"
    by (simp_all add: stub_def world_at_def)
  have b: "SessionByToken stub ''t1'' (ext (world_at 5000000001)) = (Inr (stub_session ''t1''), 5000000001)"
    "time_Now stub 5000000001 = (5000000001, 5000000001)"
    by (simp_all add: stub_def world_at_def)
  have c: "SessionByToken (stub\<lparr>SessionByToken := (\<lambda>token s. (Inl (ErrOther ''session not found''), s))\<rparr>)
             ''t1'' (ext (world_at 0)) = (Inl (ErrOther ''session not found''), 0)"
    "time_Now (stub\<lparr>SessionByToken := (\<lambda>token s. (Inl (ErrOther ''session not found''), s))\<rparr>) 0 = (0, 0)"
    by (simp_all add: stub_def world_at_def)
  from ValidateAccountSession_result[OF a] ValidateAccountSession_result[OF b]
    ValidateAccountSession_result[OF c]
  show ?thesis
    by (simp add: stub_session_def Unix_def)
qed

subsection \<open>C3\<close>

text \<open>
  Claim C3. When the session store returns the list \<open>sessions\<close> for the
  account, leaving the state \<open>s1\<close>, \<open>Logout\<close> runs the revocations of the session saver
  over the list in its order, each on the state the one before it left. Either every
  one of them succeeds: then \<open>Logout\<close> returns success, the external state is the one
  after the last revocation, and the store calls issued are one successful revocation
  for every session of the list, in order. Or the revocation of some session \<open>k\<close>
  (counted from 0) is the first to fail, with an error \<open>e\<close>: then \<open>Logout\<close> returns
  failure with \<open>e\<close> wrapped, the external state is the one that failed call left on top
  of the successful revocations of the sessions before \<open>k\<close>, and the store calls issued
  are those successful revocations, in order, then the failed one, and none after it.
  The sessions after \<open>k\<close> are not revoked and what was done to the ones before it is not
  undone.
\<close>

theorem Logout_fail_fast:
  assumes "Sessions a accountID (ext w) = (Inr sessions, s1)"
    and "Logout a accountID w = ((ok, err), w')"
  shows "(ok \<and> err = None
          \<and> revokes_succeed a sessions s1
          \<and> ext w' = after_revoking a sessions s1
          \<and> events w' = events w @ [Store (Call_Sessions accountID) None] @ map revoked sessions)
     \<or> (\<exists>k e. k < length sessions \<and> \<not> ok \<and> err = Some (Errorf ''Auth.Logout'' (Some e))
           \<and> revokes_succeed a (take k sessions) s1
           \<and> sessionSaver_RevokeSession a (Session_Token (sessions ! k))
                (after_revoking a (take k sessions) s1) = (Inl e, ext w')
           \<and> events w' = events w @ [Store (Call_Sessions accountID) None]
                @ map revoked (take k sessions)
                @ [Store (Call_sessionSaver_RevokeSession (Session_Token (sessions ! k))) (Some e)])"
proof -
  from assms have "Logout_loop a ''Auth.Logout'' sessions
      \<lparr>ext = s1, events = events w @ [Store (Call_Sessions accountID) None]\<rparr> = ((ok, err), w')"
    by (simp add: Logout_def invoke_def outcome_def)
  from Logout_loop_states[OF this] show ?thesis by simp
qed

text \<open>
  On the instance with rows. With the sessions \<open>t1\<close>, \<open>t2\<close>, \<open>t3\<close>, the revocation of
  \<open>t2\<close> fails: \<open>t1\<close> is gone from the store, \<open>t2\<close> and \<open>t3\<close> are still there. With the
  sessions \<open>t1\<close>, \<open>t3\<close> both revocations succeed and the store holds no session.
\<close>

theorem Logout_fail_fast_witness:
  "Logout mem_Auth 1 (mem_world 0 [stub_session ''t1'', stub_session ''t2'', stub_session ''t3''])
     = ((False, Some (Errorf ''Auth.Logout'' (Some (ErrOther ''revoke failed'')))),
        \<lparr>ext = \<lparr>mem_clock = 0, mem_accounts = [stub_account],
                 mem_sessions = [stub_session ''t2'', stub_session ''t3'']\<rparr>,
          events = [Store (Call_Sessions 1) None, revoked (stub_session ''t1''),
            Store (Call_sessionSaver_RevokeSession ''t2'') (Some (ErrOther ''revoke failed''))]\<rparr>)
   \<and> Logout mem_Auth 1 (mem_world 0 [stub_session ''t1'', stub_session ''t3''])
     = ((True, None),
        \<lparr>ext = \<lparr>mem_clock = 0, mem_accounts = [stub_account], mem_sessions = []\<rparr>,
          events = [Store (Call_Sessions 1) None, revoked (stub_session ''t1''),
            revoked (stub_session ''t3'')]\<rparr>)"
proof -
  let ?w = "mem_world 0 [stub_session ''t1'', stub_session ''t2'', stub_session ''t3'']"
  let ?v = "mem_world 0 [stub_session ''t1'', stub_session ''t3'']"
  have a: "Sessions mem_Auth 1 (ext ?w)
             = (Inr [stub_session ''t1'', stub_session ''t2'', stub_session ''t3''], ext ?w)"
    by (simp add: mems)
  have b: "Sessions mem_Auth 1 (ext ?v) = (Inr [stub_session ''t1'', stub_session ''t3''], ext ?v)"
    by (simp add: mems)
  have ev1: "Logout mem_Auth 1 ?w
     = ((False, Some (Errorf ''Auth.Logout'' (Some (ErrOther ''revoke failed'')))),
        \<lparr>ext = \<lparr>mem_clock = 0, mem_accounts = [stub_account],
                 mem_sessions = [stub_session ''t2'', stub_session ''t3'']\<rparr>,
          events = [Store (Call_Sessions 1) None, revoked (stub_session ''t1''),
            Store (Call_sessionSaver_RevokeSession ''t2'') (Some (ErrOther ''revoke failed''))]\<rparr>)"
    by (simp add: Logout_def ops mems revoked_def)
  have ev2: "Logout mem_Auth 1 ?v
     = ((True, None),
        \<lparr>ext = \<lparr>mem_clock = 0, mem_accounts = [stub_account], mem_sessions = []\<rparr>,
          events = [Store (Call_Sessions 1) None, revoked (stub_session ''t1''),
            revoked (stub_session ''t3'')]\<rparr>)"
    by (simp add: Logout_def ops mems revoked_def)
  from Logout_fail_fast[OF a ev1] Logout_fail_fast[OF b ev2] show ?thesis
    by - (rule conjI, rule ev1, rule ev2)
qed

subsection \<open>C4\<close>

text \<open>
  Claim C4. In \<open>Login\<close>, an error of the account lookup that is
  \<open>ErrAccountNotFound\<close> (by \<open>errors.Is\<close>) and a hash comparison that fails give the same
  result: empty tokens and \<open>ErrInvalidCredentials\<close> wrapped under the operation's name.
  Any other error of the account lookup is returned itself, wrapped under the
  operation's name.
\<close>

theorem Login_invalid_credentials:
  assumes "AccountByEmail a email (ext w) = (r, s1)"
  shows "(\<forall>e. r = Inl e \<and> errors_Is e ErrAccountNotFound \<longrightarrow>
            fst (Login a email password userAgent ipAddress appID w)
              = ([], [], Some (Errorf ''Auth.Login'' (Some ErrInvalidCredentials))))
       \<and> (\<forall>user e. r = Inr user
              \<and> bcrypt_CompareHashAndPassword a (Account_PassHash user) password = Some e \<longrightarrow>
            fst (Login a email password userAgent ipAddress appID w)
              = ([], [], Some (Errorf ''Auth.Login'' (Some ErrInvalidCredentials))))
       \<and> (\<forall>e. r = Inl e \<and> \<not> errors_Is e ErrAccountNotFound \<longrightarrow>
            fst (Login a email password userAgent ipAddress appID w)
              = ([], [], Some (Errorf ''Auth.Login'' (Some e))))"
  using assms by (auto simp: Login_def invoke_def outcome_def)

text \<open>On the instance: an unknown email, a wrong password, and an account store that fails otherwise.\<close>

theorem Login_invalid_credentials_witness:
  "fst (Login stub ''b@x.com'' ''pw123'' ''ua'' ''ip'' 1 (world_at 7))
     = ([], [], Some (Errorf ''Auth.Login'' (Some ErrInvalidCredentials)))
   \<and> fst (Login stub ''a@x.com'' ''wrong'' ''ua'' ''ip'' 1 (world_at 7))
     = ([], [], Some (Errorf ''Auth.Login'' (Some ErrInvalidCredentials)))
   \<and> fst (Login (stub\<lparr>AccountByEmail := (\<lambda>email s. (Inl (ErrOther ''database is locked''), s))\<rparr>)
            ''a@x.com'' ''pw123'' ''ua'' ''ip'' 1 (world_at 7))
     = ([], [], Some (Errorf ''Auth.Login'' (Some (ErrOther ''database is locked''))))"
proof -
  have a: "AccountByEmail stub ''b@x.com'' (ext (world_at 7))
            = (Inl (Errorf ''storage.AccountByEmail'' (Some ErrAccountNotFound)), 7)"
    by (simp add: stub_def world_at_def)
  have b: "AccountByEmail stub ''a@x.com'' (ext (world_at 7)) = (Inr stub_account, 7)"
    by (simp add: stub_def world_at_def)
  have c: "AccountByEmail (stub\<lparr>AccountByEmail := (\<lambda>email s. (Inl (ErrOther ''database is locked''), s))\<rparr>)
             ''a@x.com'' (ext (world_at 7)) = (Inl (ErrOther ''database is locked''), 7)"
    by (simp add: stub_def world_at_def)
  have b': "bcrypt_CompareHashAndPassword stub (Account_PassHash stub_account) ''wrong''
              = Some (ErrOther ''mismatch'')"
    by (simp add: stub_def stub_account_def)
  from Login_invalid_credentials[OF a, of "''pw123''" "''ua''" "''ip''" 1] Login_invalid_credentials[OF b, of "''wrong''" "''ua''" "''ip''" 1] b'
       Login_invalid_credentials[OF c, of "''pw123''" "''ua''" "''ip''" 1]
  show ?thesis by simp
qed

subsection \<open>C5\<close>

text \<open>
  Claim C5. \<open>RegisterNewAccount\<close> returns an account id and no error exactly
  when hashing the password succeeds and the one call of \<open>SaveAccount\<close>, with the email,
  the hash, the role, the status \<open>ACTIVE\<close> and the app id, on the state the hashing left,
  succeeds and returns that id. The external state is then the one \<open>SaveAccount\<close> left,
  and that call is the only store call issued: no call of the session store is among
  the events, and the state is touched by nothing after the save.
\<close>

theorem RegisterNewAccount_one_SaveAccount:
  "RegisterNewAccount a email pass role appId w = ((uid, None), w') \<longleftrightarrow>
     (\<exists>passHash s1 s2.
        bcrypt_GenerateFromPassword a pass bcrypt_DefaultCost (ext w) = (Inr passHash, s1)
        \<and> SaveAccount a email passHash role ACTIVE appId s1 = (Inr uid, s2)
        \<and> w' = \<lparr>ext = s2, events = events w @
                   [Store (Call_SaveAccount email passHash role ACTIVE appId) None]\<rparr>)"
  by (auto simp: RegisterNewAccount_def invoke_def prim_def outcome_def Let_def
           split: prod.splits sum.splits)

text \<open>
  On the instance with rows: the store holds one new account, with status \<open>ACTIVE\<close>,
  and no session.
\<close>

theorem RegisterNewAccount_one_SaveAccount_witness:
  "RegisterNewAccount mem_Auth ''b@x.com'' ''pw456'' ADMIN 1 (mem_world 0 [])
     = ((2, None),
        \<lparr>ext = \<lparr>mem_clock = 0,
                 mem_accounts = [stub_account,
                   \<lparr>Account_ID = 2, Account_Email = ''b@x.com'', Account_PassHash = ''pw456'',
                     Account_Role = ADMIN, Account_Status = ACTIVE, Account_AppId = 1\<rparr>],
                 mem_sessions = []\<rparr>,
          events = [Store (Call_SaveAccount ''b@x.com'' ''pw456'' ADMIN ACTIVE 1) None]\<rparr>)"
proof -
  have h: "\<exists>passHash s1 s2.
        bcrypt_GenerateFromPassword mem_Auth ''pw456'' bcrypt_DefaultCost (ext (mem_world 0 []))
          = (Inr passHash, s1)
        \<and> SaveAccount mem_Auth ''b@x.com'' passHash ADMIN ACTIVE 1 s1 = (Inr 2, s2)
        \<and> \<lparr>ext = \<lparr>mem_clock = 0,
                 mem_accounts = [stub_account,
                   \<lparr>Account_ID = 2, Account_Email = ''b@x.com'', Account_PassHash = ''pw456'',
                     Account_Role = ADMIN, Account_Status = ACTIVE, Account_AppId = 1\<rparr>],
                 mem_sessions = []\<rparr>,
          events = [Store (Call_SaveAccount ''b@x.com'' ''pw456'' ADMIN ACTIVE 1) None]\<rparr>
          = \<lparr>ext = s2, events = events (mem_world 0 []) @
                   [Store (Call_SaveAccount ''b@x.com'' passHash ADMIN ACTIVE 1) None]\<rparr>"
    by (simp add: mem_Auth_def mem_world_def)
  from RegisterNewAccount_one_SaveAccount[THEN iffD2, OF h] show ?thesis .
qed

subsection \<open>C6\<close>

text \<open>
  Claim C6. \<open>RefreshAccountSession\<close> returns new tokens and no error exactly
  when the lookups of the account, of its app and of the session by the refresh token
  succeed, the refresh deadline of that session is not before the first reading of the
  clock, the token is signed, the random bytes are read, and \<open>SaveSession\<close> succeeds on
  the state all of that left, with the new tokens and with the second reading of the
  clock plus \<open>refreshTokenTTL\<close> as the deadline. The external state is then the one
  \<open>SaveSession\<close> left, the Unix seconds of the deadline are returned, and the store calls
  issued are the three lookups and that one \<open>SaveSession\<close>: no revocation and no other
  write is issued, so nothing the service does touches the session that was looked up.
\<close>

theorem RefreshAccountSession_additive:
  "RefreshAccountSession a accountID refreshToken userAgent ipAddress w
       = ((newToken, newRefreshToken, expiresAtUnix, None), w') \<longleftrightarrow>
     (\<exists>account s1 app s2 session s3 t s4 s5 token s6 t' s7 sessionID s8.
        AccountById a accountID (ext w) = (Inr account, s1)
        \<and> AppById a (Account_AppId account) s1 = (Inr app, s2)
        \<and> SessionByRefreshToken a refreshToken s2 = (Inr session, s3)
        \<and> time_Now a s3 = (t, s4)
        \<and> \<not> Session_RefreshExpiresAt session < t
        \<and> jwt_NewToken a account app (tokenTTL a) s4 = (Inr newToken, s5)
        \<and> rand_Read a 32 s5 = (Inr token, s6)
        \<and> newRefreshToken = base64_EncodeToString a token
        \<and> time_Now a s6 = (t', s7)
        \<and> SaveSession a accountID userAgent ipAddress newToken newRefreshToken
             (t' + refreshTokenTTL a) s7 = (Inr sessionID, s8)
        \<and> expiresAtUnix = Unix (t' + refreshTokenTTL a)
        \<and> w' = \<lparr>ext = s8, events = events w @
             [Store (Call_AccountById accountID) None,
              Store (Call_App (Account_AppId account)) None,
              Store (Call_SessionByRefreshToken refreshToken) None,
              Clock t, Clock t',
              Store (Call_SaveSession accountID userAgent ipAddress newToken newRefreshToken
                       (t' + refreshTokenTTL a)) None]\<rparr>)"
  (is "?L \<longleftrightarrow> ?R")
proof
  assume ?L
  then show ?R
    by (auto simp: RefreshAccountSession_def ops split: prod.splits sum.splits option.splits if_splits)
next
  assume ?R
  then show ?L
    by (auto simp: RefreshAccountSession_def ops)
qed

text \<open>
  On the instance with rows, at the instant of the refresh deadline of the session
  \<open>t1\<close>: the store holds the new session after the old one, which is unchanged.
\<close>

theorem RefreshAccountSession_additive_witness:
  "RefreshAccountSession mem_Auth 1 ''r-t1'' ''ua2'' ''ip2'' (mem_world 9000000000 [stub_session ''t1''])
     = ((''jwt'', replicate 32 CHR ''r'', 86409, None),
        \<lparr>ext = \<lparr>mem_clock = 9000000000, mem_accounts = [stub_account],
                 mem_sessions = [stub_session ''t1'',
                   \<lparr>Session_ID = ''s-jwt'', Session_AccountID = 1, Session_UserAgent = ''ua2'',
                     Session_IpAddress = ''ip2'', Session_Token = ''jwt'',
                     Session_RefreshToken = replicate 32 CHR ''r'',
                     Session_ExpiresAt = 86409000000000,
                     Session_RefreshExpiresAt = 86409000000000\<rparr>]\<rparr>,
          events = [Store (Call_AccountById 1) None, Store (Call_App 1) None,
            Store (Call_SessionByRefreshToken ''r-t1'') None, Clock 9000000000, Clock 9000000000,
            Store (Call_SaveSession 1 ''ua2'' ''ip2'' ''jwt'' (replicate 32 CHR ''r'') 86409000000000)
              None]\<rparr>)"
  by (rule RefreshAccountSession_additive[THEN iffD2]) (simp add: mems Unix_def)

subsection \<open>C7\<close>

text \<open>
  Claim C7, as the code has it. In \<open>ChangePassword\<close>, an error \<open>e\<close> of the
  account lookup ends the operation with \<open>e\<close> wrapped under the operation's name and no
  further call; an old password that does not verify against the stored hash ends it
  with \<open>ErrInvalidCredentials\<close> wrapped and no further call; an error of hashing the new
  password ends it with that error wrapped and no further call; otherwise one
  \<open>UpdatePassword\<close> with the new hash is issued, and the operation succeeds when that
  call succeeds and fails with its error wrapped when it fails.
\<close>

theorem ChangePassword_outcomes:
  assumes "AccountById a accountID (ext w) = (r, s1)"
  shows "(\<forall>e. r = Inl e \<longrightarrow>
            ChangePassword a accountID oldPassword newPassword w
              = ((False, Some (Errorf ''Auth.ChangePassword'' (Some e))),
                 \<lparr>ext = s1, events = events w @ [Store (Call_AccountById accountID) (Some e)]\<rparr>))
       \<and> (\<forall>account e. r = Inr account
              \<and> bcrypt_CompareHashAndPassword a (Account_PassHash account) oldPassword = Some e \<longrightarrow>
            ChangePassword a accountID oldPassword newPassword w
              = ((False, Some (Errorf ''Auth.ChangePassword'' (Some ErrInvalidCredentials))),
                 \<lparr>ext = s1, events = events w @ [Store (Call_AccountById accountID) None]\<rparr>))
       \<and> (\<forall>account e s2. r = Inr account
              \<and> bcrypt_CompareHashAndPassword a (Account_PassHash account) oldPassword = None
              \<and> bcrypt_GenerateFromPassword a newPassword bcrypt_DefaultCost s1 = (Inl e, s2) \<longrightarrow>
            ChangePassword a accountID oldPassword newPassword w
              = ((False, Some (Errorf ''Auth.ChangePassword'' (Some e))),
                 \<lparr>ext = s2, events = events w @ [Store (Call_AccountById accountID) None]\<rparr>))
       \<and> (\<forall>account newPassHash s2 u s3. r = Inr account
              \<and> bcrypt_CompareHashAndPassword a (Account_PassHash account) oldPassword = None
              \<and> bcrypt_GenerateFromPassword a newPassword bcrypt_DefaultCost s1 = (Inr newPassHash, s2)
              \<and> UpdatePassword a accountID newPassHash s2 = (u, s3) \<longrightarrow>
            ChangePassword a accountID oldPassword newPassword w
              = ((case u of Inl e \<Rightarrow> (False, Some (Errorf ''Auth.ChangePassword'' (Some e)))
                  | Inr _ \<Rightarrow> (True, None)),
                 \<lparr>ext = s3, events = events w @
                    [Store (Call_AccountById accountID) None,
                     Store (Call_UpdatePassword accountID newPassHash) (outcome u)]\<rparr>))"
  using assms by (auto simp: ChangePassword_def invoke_def prim_def outcome_def split: sum.splits)

text \<open>
  A lookup that succeeds and an old password that verifies do not make the
  operation succeed: when \<open>UpdatePassword\<close> fails, so does \<open>ChangePassword\<close>. And a lookup
  that fails with an error other than \<open>ErrAccountNotFound\<close> does not make it fail with
  \<open>ErrAccountNotFound\<close>.
\<close>

theorem ChangePassword_counterexample:
  "fst (ChangePassword (stub\<lparr>UpdatePassword := (\<lambda>accountId newPassHash s. (Inl (ErrOther ''database is locked''), s))\<rparr>)
          1 ''pw123'' ''pw456'' (world_at 0))
     = (False, Some (Errorf ''Auth.ChangePassword'' (Some (ErrOther ''database is locked''))))
   \<and> fst (ChangePassword (stub\<lparr>AccountById := (\<lambda>accountId s. (Inl (ErrOther ''database is locked''), s))\<rparr>)
          1 ''pw123'' ''pw456'' (world_at 0))
     = (False, Some (Errorf ''Auth.ChangePassword'' (Some (ErrOther ''database is locked''))))
   \<and> \<not> errors_Is (Errorf ''Auth.ChangePassword'' (Some (ErrOther ''database is locked''))) ErrAccountNotFound"
  by (simp add: ChangePassword_def ops stubs)

text \<open>On the instance: the right old password, a wrong one, and an unknown account.\<close>

theorem ChangePassword_outcomes_witness:
  "ChangePassword stub 1 ''pw123'' ''pw456'' (world_at 0)
     = ((True, None), \<lparr>ext = 0, events = [Store (Call_AccountById 1) None,
                                           Store (Call_UpdatePassword 1 ''pw456'') None]\<rparr>)
   \<and> ChangePassword stub 1 ''wrong'' ''pw456'' (world_at 0)
     = ((False, Some (Errorf ''Auth.ChangePassword'' (Some ErrInvalidCredentials))),
        \<lparr>ext = 0, events = [Store (Call_AccountById 1) None]\<rparr>)
   \<and> ChangePassword stub 2 ''pw123'' ''pw456'' (world_at 0)
     = ((False, Some (Errorf ''Auth.ChangePassword''
                        (Some (Errorf ''storage.AccountById'' (Some ErrAccountNotFound))))),
        \<lparr>ext = 0, events = [Store (Call_AccountById 2)
                              (Some (Errorf ''storage.AccountById'' (Some ErrAccountNotFound)))]\<rparr>)"
proof -
  have a: "AccountById stub 1 (ext (world_at 0)) = (Inr stub_account, 0)"
    by (simp add: stub_def world_at_def)
  have b: "AccountById stub 2 (ext (world_at 0))
             = (Inl (Errorf ''storage.AccountById'' (Some ErrAccountNotFound)), 0)"
    by (simp add: stub_def world_at_def)
  have c: "bcrypt_CompareHashAndPassword stub (Account_PassHash stub_account) ''pw123'' = None"
    "bcrypt_CompareHashAndPassword stub (Account_PassHash stub_account) ''wrong'' = Some (ErrOther ''mismatch'')"
    "bcrypt_GenerateFromPassword stub ''pw456'' bcrypt_DefaultCost 0 = (Inr ''pw456'', 0)"
    "UpdatePassword stub 1 ''pw456'' 0 = (Inr (), 0)"
    by (simp_all add: stub_def stub_account_def)
  from ChangePassword_outcomes[OF a, of "''pw123''" "''pw456''"] ChangePassword_outcomes[OF a, of "''wrong''" "''pw456''"]
       ChangePassword_outcomes[OF b, of "''pw123''" "''pw456''"] c
  show ?thesis by (simp add: world_at_def outcome_def)
qed

subsection \<open>C8\<close>

text \<open>
  Claim C8. When the session store returns the list \<open>sessions\<close> for the
  account, \<open>GetActiveAccountSessions\<close> returns that very list and no error, after that
  one store call: the clock is not read and no session is dropped or reordered.
\<close>

theorem GetActiveAccountSessions_read_through:
  assumes "Sessions a accountID (ext w) = (Inr sessions, s1)"
  shows "GetActiveAccountSessions a accountID w
           = ((sessions, None), \<lparr>ext = s1, events = events w @ [Store (Call_Sessions accountID) None]\<rparr>)"
  using assms by (simp add: GetActiveAccountSessions_def ops)

text \<open>On the instance, at a time when the sessions returned have all expired.\<close>

theorem GetActiveAccountSessions_read_through_witness:
  "fst (GetActiveAccountSessions stub 1 (world_at 9000000001))
     = ([stub_session ''t1'', stub_session ''t2'', stub_session ''t3''], None)
   \<and> Session_ExpiresAt (stub_session ''t1'') < 9000000001"
proof -
  have a: "Sessions stub 1 (ext (world_at 9000000001))
             = (Inr [stub_session ''t1'', stub_session ''t2'', stub_session ''t3''], 9000000001)"
    by (simp add: stub_def world_at_def)
  from GetActiveAccountSessions_read_through[OF a] show ?thesis by (simp add: stub_session_def)
qed

subsection \<open>C9\<close>

text \<open>
  Claim C9. The first value \<open>ChangeStatus\<close> returns is the status it was given,
  whatever the store answers.
\<close>

theorem ChangeStatus_returns_status: "fst (fst (ChangeStatus a accountID status w)) = status"
  by (simp add: ChangeStatus_def ops split: prod.splits sum.splits)

text \<open>On the instance, and on a copy of it whose status update fails.\<close>

theorem ChangeStatus_returns_status_witness:
  "fst (ChangeStatus stub 1 SUSPENDED (world_at 0)) = (SUSPENDED, None)
   \<and> fst (ChangeStatus (stub\<lparr>UpdateStatus := (\<lambda>accountId status s. (Inl (ErrOther ''database is locked''), s))\<rparr>)
            1 SUSPENDED (world_at 0))
       = (SUSPENDED, Some (Errorf ''Auth.ChangeStatus'' (Some (ErrOther ''database is locked''))))"
  using ChangeStatus_returns_status[of stub 1 SUSPENDED "world_at 0"]
    ChangeStatus_returns_status[of "stub\<lparr>UpdateStatus := (\<lambda>accountId status s. (Inl (ErrOther ''database is locked''), s))\<rparr>" 1 SUSPENDED "world_at 0"]
  by (simp add: ChangeStatus_def ops stubs)

subsection \<open>C10\<close>

text \<open>
  Claim C10. Whenever \<open>Login\<close> returns an error, both token strings it returns
  are empty.
\<close>

theorem Login_failure_empty_tokens:
  assumes "Login a email password userAgent ipAddress appID w = ((token, refreshToken, Some e), w')"
  shows "token = [] \<and> refreshToken = []"
  using assms
  by (auto simp: Login_def ops split: prod.splits sum.splits option.splits if_splits)

text \<open>On a copy of the instance whose \<open>SaveSession\<close> fails, the last step of \<open>Login\<close>.\<close>

theorem Login_failure_empty_tokens_witness:
  "fst (Login (stub\<lparr>SaveSession := (\<lambda>accountId userAgent ipAddress token refreshToken expiresAt s.
                   (Inl (ErrOther ''database is locked''), s))\<rparr>)
          ''a@x.com'' ''pw123'' ''ua'' ''ip'' 1 (world_at 7))
     = ([], [], Some (Errorf ''Auth.Login'' (Some (ErrOther ''database is locked''))))"
proof -
  have ev: "Login (stub\<lparr>SaveSession := (\<lambda>accountId userAgent ipAddress token refreshToken expiresAt s.
                   (Inl (ErrOther ''database is locked''), s))\<rparr>)
          ''a@x.com'' ''pw123'' ''ua'' ''ip'' 1 (world_at 7)
     = ((fst (fst (Login (stub\<lparr>SaveSession := (\<lambda>accountId userAgent ipAddress token refreshToken expiresAt s.
                   (Inl (ErrOther ''database is locked''), s))\<rparr>)
          ''a@x.com'' ''pw123'' ''ua'' ''ip'' 1 (world_at 7))),
         fst (snd (fst (Login (stub\<lparr>SaveSession := (\<lambda>accountId userAgent ipAddress token refreshToken expiresAt s.
                   (Inl (ErrOther ''database is locked''), s))\<rparr>)
          ''a@x.com'' ''pw123'' ''ua'' ''ip'' 1 (world_at 7)))),
         Some (Errorf ''Auth.Login'' (Some (ErrOther ''database is locked'')))),
        \<lparr>ext = 7, events = [Store (Call_AccountByEmail ''a@x.com'') None, Store (Call_App 1) None,
            Clock 7,
            Store (Call_SaveSession 1 ''ua'' ''ip'' ''jwt'' (replicate 32 CHR ''r'') (7 + refreshTokenTTL stub))
              (Some (ErrOther ''database is locked''))]\<rparr>)"
    by (simp add: Login_def ops stubs)
  from Login_failure_empty_tokens[OF ev] ev show ?thesis by simp
qed

end
